theory Spec2Isabelle
  imports Main
begin

section \<open>convert\_shp.py: data model\<close>

text \<open>
  A coordinate tuple as shapely's \<^verbatim>\<open>coords\<close> yields it: a pair \<^verbatim>\<open>(x, y)\<close> or a
  triple \<^verbatim>\<open>(x, y, z)\<close>. The number type \<open>'a\<close> stands for Python's float; the
  only arithmetic the script does on it is one \<open>+\<close> and the literal \<open>0\<close>, so the
  development is generic in \<open>'a\<close>.
\<close>

datatype 'a coord = XY 'a 'a | XYZ 'a 'a 'a

text \<open>
  The geometry classes a layer read from an ESRI Shapefile holds. The type parameter
  \<open>'c\<close> is the coordinate tuple. A point owns at most one tuple (\<open>None\<close>: the empty
  point), a multi-point is the list of its member points, a multi-line the list of the
  coordinate sequences of its member lines, a polygon an exterior ring and its holes.
\<close>

datatype 'c geometry =
    Point "'c option"
  | LineString "'c list"
  | MultiPoint "'c option list"
  | MultiLineString "'c list list"
  | Polygon "'c list" "'c list list"
  | MultiPolygon "('c list \<times> 'c list list) list"

text \<open>
  The exceptions of the model: ValueError from unpacking a tuple of the wrong length and
  from writing a table with two equal column labels, IndexError from \<^verbatim>\<open>coords[0]\<close>
  of an empty point, GEOSException from building a line of one coordinate,
  EmptyPartError from building a multi-line with an empty member, ProjError from a
  pyproj transformation, ReadError and WriteError from reading and writing a file.
\<close>

datatype py_error =
    ValueError | IndexError | GEOSException | EmptyPartError | ProjError | ReadError | WriteError

text \<open>
  \<^verbatim>\<open>to_wgs84.transform(x, y)\<close> and \<^verbatim>\<open>vshift.transform(lon, lat, z)\<close>: library calls
  that give a tuple or raise.
\<close>

type_synonym 'a horiz = "'a \<Rightarrow> 'a \<Rightarrow> py_error + 'a \<times> 'a"
type_synonym 'a vert = "'a \<Rightarrow> 'a \<Rightarrow> 'a \<Rightarrow> py_error + 'a \<times> 'a \<times> 'a"

section \<open>z\_fix\<close>

fun is_xyz :: "'a coord \<Rightarrow> bool" where
  "is_xyz (XYZ x y z) = True"
| "is_xyz (XY x y) = False"

definition opt_xyz :: "'a coord option \<Rightarrow> bool" where
  "opt_xyz p = (case p of None \<Rightarrow> False | Some c \<Rightarrow> is_xyz c)"

definition ring_xyz :: "'a coord list \<times> 'a coord list list \<Rightarrow> bool" where
  "ring_xyz p = (list_ex is_xyz (fst p) \<or> list_ex (list_ex is_xyz) (snd p))"

text \<open>
  \<^verbatim>\<open>geom.has_z\<close>: the geometry carries a Z ordinate. An empty geometry has none; a
  collection has one as soon as one member has.
\<close>

fun has_z :: "'a coord geometry \<Rightarrow> bool" where
  "has_z (Point p) = opt_xyz p"
| "has_z (LineString cs) = list_ex is_xyz cs"
| "has_z (MultiPoint ps) = list_ex opt_xyz ps"
| "has_z (MultiLineString ls) = list_ex (list_ex is_xyz) ls"
| "has_z (Polygon ext holes) = ring_xyz (ext, holes)"
| "has_z (MultiPolygon polys) = list_ex ring_xyz polys"

text \<open>
  The inner function \<^verbatim>\<open>_ellip(c)\<close>. \<^verbatim>\<open>x, y, z = c\<close> raises ValueError when the
  tuple has two entries; \<open>tw\<close> is \<^verbatim>\<open>to_wgs84.transform\<close> and \<open>vs\<close> is
  \<^verbatim>\<open>vshift.transform\<close>.
\<close>

definition ellip :: "'a::{plus,zero} horiz \<Rightarrow> 'a vert \<Rightarrow> 'a coord \<Rightarrow> py_error + 'a coord" where
  "ellip tw vs c =
     (case c of
        XY x y \<Rightarrow> Inl ValueError
      | XYZ x y z \<Rightarrow>
          (case tw x y of
             Inl e \<Rightarrow> Inl e
           | Inr (lon, lat) \<Rightarrow>
               (case vs lon lat 0 of
                  Inl e \<Rightarrow> Inl e
                | Inr (u, v, N) \<Rightarrow> Inr (XYZ x y (z + N)))))"

text \<open>\<^verbatim>\<open>coords[0]\<close> of a point: IndexError when the point is empty.\<close>

definition coords0 :: "'c option \<Rightarrow> py_error + 'c" where
  "coords0 p = (case p of None \<Rightarrow> Inl IndexError | Some c \<Rightarrow> Inr c)"

text \<open>
  A list comprehension \<^verbatim>\<open>[f(x) for x in xs]\<close> whose body may raise: the elements are
  evaluated left to right and the first exception ends the comprehension.
\<close>

fun comprehension :: "('b \<Rightarrow> py_error + 'd) \<Rightarrow> 'b list \<Rightarrow> py_error + 'd list" where
  "comprehension f [] = Inr []"
| "comprehension f (x # xs) =
     (case f x of
        Inl e \<Rightarrow> Inl e
      | Inr y \<Rightarrow> (case comprehension f xs of Inl e \<Rightarrow> Inl e | Inr ys \<Rightarrow> Inr (y # ys)))"

text \<open>\<^verbatim>\<open>Point(_ellip(pt.coords[0]))\<close>, the body of the MultiPoint comprehension.\<close>

definition ellip_point :: "'a::{plus,zero} horiz \<Rightarrow> 'a vert \<Rightarrow> 'a coord option \<Rightarrow> py_error + 'a coord option" where
  "ellip_point tw vs p =
     (case coords0 p of
        Inl e \<Rightarrow> Inl e
      | Inr c \<Rightarrow> (case ellip tw vs c of Inl e \<Rightarrow> Inl e | Inr c' \<Rightarrow> Inr (Some c')))"

text \<open>
  The constructor \<^verbatim>\<open>LineString(coords)\<close>: a line has no coordinate or at least two,
  one coordinate alone is refused.
\<close>

definition line_string :: "'c list \<Rightarrow> py_error + 'c list" where
  "line_string cs = (if length cs = 1 then Inl GEOSException else Inr cs)"

text \<open>
  \<^verbatim>\<open>LineString([_ellip(pt) for pt in seg.coords])\<close>, the body of the MultiLineString
  comprehension and the LineString branch.
\<close>

definition ellip_line :: "'a::{plus,zero} horiz \<Rightarrow> 'a vert \<Rightarrow> 'a coord list \<Rightarrow> py_error + 'a coord list" where
  "ellip_line tw vs cs =
     (case comprehension (ellip tw vs) cs of Inl e \<Rightarrow> Inl e | Inr cs' \<Rightarrow> line_string cs')"

text \<open>
  The constructor \<^verbatim>\<open>MultiLineString(lines)\<close>: an empty member line is refused with
  EmptyPartError.
\<close>

definition multi_line_string :: "'c list list \<Rightarrow> py_error + 'c geometry" where
  "multi_line_string ls =
     (if list_ex (\<lambda>l. l = []) ls then Inl EmptyPartError else Inr (MultiLineString ls))"

text \<open>
  \<^verbatim>\<open>z_fix(geom)\<close>. The first argument is the module constant \<^verbatim>\<open>APPLY_Z_FIX\<close>. The
  \<^verbatim>\<open>isinstance\<close> tests are tried in the order of the source; the last line returns
  every other class as it came. The member points of the new MultiPoint are built from
  a tuple each, so none of them is empty and its constructor accepts them.
\<close>

definition z_fix :: "bool \<Rightarrow> 'a::{plus,zero} horiz \<Rightarrow> 'a vert \<Rightarrow> 'a coord geometry \<Rightarrow> py_error + 'a coord geometry" where
  "z_fix apply_z_fix tw vs geom =
     (if \<not> (apply_z_fix \<and> has_z geom) then Inr geom
      else (case geom of
              Point p \<Rightarrow>
                (case ellip_point tw vs p of Inl e \<Rightarrow> Inl e | Inr p' \<Rightarrow> Inr (Point p'))
            | LineString cs \<Rightarrow>
                (case ellip_line tw vs cs of Inl e \<Rightarrow> Inl e | Inr cs' \<Rightarrow> Inr (LineString cs'))
            | MultiPoint ps \<Rightarrow>
                (case comprehension (ellip_point tw vs) ps of
                   Inl e \<Rightarrow> Inl e | Inr ps' \<Rightarrow> Inr (MultiPoint ps'))
            | MultiLineString ls \<Rightarrow>
                (case comprehension (ellip_line tw vs) ls of
                   Inl e \<Rightarrow> Inl e | Inr ls' \<Rightarrow> multi_line_string ls')
            | Polygon ext holes \<Rightarrow> Inr geom
            | MultiPolygon polys \<Rightarrow> Inr geom))"

section \<open>Field renaming\<close>

text \<open>The dict \<^verbatim>\<open>RENAME_FIELDS\<close>, in the order of the source.\<close>

definition RENAME_FIELDS :: "(string \<times> string) list" where
  "RENAME_FIELDS =
     [(''id'', ''ID''),
      (''linkid'', ''LinkID''),
      (''l_linkid'', ''L_LinkID''),
      (''r_linkid'', ''R_LinkID''),
      (''tonodeid'', ''ToNodeID''),
      (''fromnodeid'', ''FromNodeID''),
      (''roadrank'', ''RoadRank''),
      (''roadno'', ''RoadNo''),
      (''laneno'', ''LaneNo''),
      (''distance'', ''Distance''),
      (''maxspeed'', ''MaxSpeed'')]"

text \<open>
  \<^verbatim>\<open>DataFrame.rename(columns=mapper, errors="ignore")\<close> with a dict as mapper: every column
  label that is a key of the dict is replaced by the dict's value for it, every other
  label is kept, and a key of the dict that is no column label is skipped silently. The
  columns keep their position and their data. A table's attribute columns are an ordered
  list of (label, data) pairs; labels may repeat.
\<close>

definition rename_label :: "(string \<times> string) list \<Rightarrow> string \<Rightarrow> string" where
  "rename_label mapper k = (case map_of mapper k of None \<Rightarrow> k | Some k' \<Rightarrow> k')"

definition rename :: "(string \<times> string) list \<Rightarrow> (string \<times> 'v) list \<Rightarrow> (string \<times> 'v) list" where
  "rename mapper cols = map (\<lambda>(k, v). (rename_label mapper k, v)) cols"

section \<open>Paths\<close>

text \<open>
  A path is the list of its components; \<^verbatim>\<open>p / name\<close> appends one. A file name is
  the list of its bytes.
\<close>

type_synonym path = "string list"

definition rfind :: "char \<Rightarrow> string \<Rightarrow> nat option" where
  "rfind c s =
     (if c \<in> set s then Some (length s - 1 - length (takeWhile (\<lambda>d. d \<noteq> c) (rev s)))
      else None)"

text \<open>
  \<^verbatim>\<open>PurePath.suffix\<close> and \<^verbatim>\<open>PurePath.stem\<close> of a file name: the name is cut at its
  last dot, unless that dot is the first or the last character.
\<close>

definition suffix_of :: "string \<Rightarrow> string" where
  "suffix_of name =
     (case rfind (CHR ''.'') name of
        None \<Rightarrow> []
      | Some i \<Rightarrow> if 0 < i \<and> i < length name - 1 then drop i name else [])"

definition stem :: "string \<Rightarrow> string" where
  "stem name =
     (case rfind (CHR ''.'') name of
        None \<Rightarrow> name
      | Some i \<Rightarrow> if 0 < i \<and> i < length name - 1 then take i name else name)"

text \<open>
  \<^verbatim>\<open>str.upper()\<close>. On a string of ASCII characters it replaces each of the letters a
  to z by its capital and keeps every other character. On any other string it follows
  Unicode, where a character may change into several; that part is the library's and is
  taken as it is given (\<open>unicode_upper\<close>).
\<close>

definition is_ascii :: "string \<Rightarrow> bool" where
  "is_ascii s = list_all (\<lambda>c. (of_char c :: nat) < 128) s"

definition upper_char :: "char \<Rightarrow> char" where
  "upper_char c =
     (case map_of (zip ''abcdefghijklmnopqrstuvwxyz'' ''ABCDEFGHIJKLMNOPQRSTUVWXYZ'') c of
        None \<Rightarrow> c
      | Some u \<Rightarrow> u)"

definition upper :: "(string \<Rightarrow> string) \<Rightarrow> string \<Rightarrow> string" where
  "upper unicode_upper s = (if is_ascii s then map upper_char s else unicode_upper s)"

definition SRC_DIR :: "path \<Rightarrow> path" where
  "SRC_DIR script_dir = script_dir @ [''shp_input'']"

definition OUT_DIR :: "path \<Rightarrow> path" where
  "OUT_DIR script_dir = script_dir @ [''shp_output'']"

definition GTX_PATH :: "path \<Rightarrow> path" where
  "GTX_PATH script_dir = script_dir @ [''egm96_15.gtx'']"

text \<open>\<^verbatim>\<open>OUT_DIR / f"{src_path.stem.upper()}{src_path.suffix}"\<close>\<close>

definition out_path :: "(string \<Rightarrow> string) \<Rightarrow> path \<Rightarrow> path \<Rightarrow> path" where
  "out_path unicode_upper script_dir src_path =
     OUT_DIR script_dir @
       [upper unicode_upper (stem (last src_path)) @ suffix_of (last src_path)]"

text \<open>
  \<^verbatim>\<open>glob.glob(str(SRC_DIR / "*.shp"))\<close>. The whole string is the pattern. Its last
  component \<^verbatim>\<open>*.shp\<close> selects, in a directory, the names that end in \<^verbatim>\<open>.shp\<close> and do
  not start with a dot. The component \<^verbatim>\<open>shp_input\<close> stands for itself. The script
  directory stands for itself too unless one of the characters \<^verbatim>\<open>*\<close>, \<^verbatim>\<open>?\<close>,
  \<^verbatim>\<open>[\<close> occurs in it: then it is a pattern, and the directories searched are the
  \<^verbatim>\<open>shp_input\<close> directories of the paths that pattern matches (\<open>matches\<close>, found in
  the file system). \<open>listdir\<close> gives the names in a directory, none when there is no
  such directory.
\<close>

definition ishidden :: "string \<Rightarrow> bool" where
  "ishidden name = (case name of [] \<Rightarrow> False | c # cs \<Rightarrow> c = CHR ''.'')"

definition fnmatch_shp :: "string \<Rightarrow> bool" where
  "fnmatch_shp name = (4 \<le> length name \<and> drop (length name - 4) name = ''.shp'')"

definition has_magic :: "string \<Rightarrow> bool" where
  "has_magic s = list_ex (\<lambda>c. c = CHR ''*'' \<or> c = CHR ''?'' \<or> c = CHR ''['') s"

definition glob1_shp :: "(path \<Rightarrow> string list) \<Rightarrow> path \<Rightarrow> path list" where
  "glob1_shp listdir dir =
     map (\<lambda>n. dir @ [n]) (filter (\<lambda>n. \<not> ishidden n \<and> fnmatch_shp n) (listdir dir))"

definition glob_shp :: "(path \<Rightarrow> string list) \<Rightarrow> path list \<Rightarrow> path \<Rightarrow> path list" where
  "glob_shp listdir matches script_dir =
     concat (map (\<lambda>d. glob1_shp listdir (SRC_DIR d))
       (if list_ex has_magic script_dir then matches else [script_dir]))"

section \<open>The batch driver\<close>

text \<open>
  A GeoDataFrame: its CRS (\<open>None\<close> when the file declares none), its geometry column and
  its attribute columns.
\<close>

record ('a, 'crs, 'v) gdf =
  crs :: "'crs option"
  geometry :: "'a coord geometry list"
  columns :: "(string \<times> 'v) list"

text \<open>
  What the script finds when it starts. \<open>gtx\<close> is the vertical shift PROJ builds from the
  grid file at \<^verbatim>\<open>GTX_PATH\<close>, \<open>None\<close> when there is no such file; \<open>listdir\<close> gives the
  names in a directory in the order the directory lists them; \<open>script_dir_matches\<close>
  are the paths the script directory matches when read as a glob pattern; \<open>read_file\<close>
  is \<^verbatim>\<open>gpd.read_file\<close>; \<open>to_crs\<close> reprojects one geometry from a source CRS into a
  target CRS; \<open>write_error\<close> is the exception the writing of a layer to a path ends in,
  \<open>None\<close> when it succeeds; \<open>unicode_upper\<close> is \<^verbatim>\<open>str.upper\<close> on the strings that
  are not ASCII.
\<close>

record ('a, 'crs, 'v) env =
  SCRIPT_DIR :: path
  APPLY_Z_FIX :: bool
  CRS_TARGET :: 'crs
  gtx :: "'a vert option"
  to_wgs84 :: "'a horiz"
  to_crs :: "'crs \<Rightarrow> 'crs \<Rightarrow> 'a coord geometry \<Rightarrow> 'a coord geometry"
  listdir :: "path \<Rightarrow> string list"
  script_dir_matches :: "path list"
  read_file :: "path \<Rightarrow> py_error + ('a, 'crs, 'v) gdf"
  write_error :: "path \<Rightarrow> ('a, 'crs, 'v) gdf \<Rightarrow> py_error option"
  unicode_upper :: "string \<Rightarrow> string"

text \<open>
  What the script has done to the file system: the directories it has made and the
  files it has written, in the order of the writes (a later write to the same path
  replaces the earlier file).
\<close>

record ('a, 'crs, 'v) disk =
  dirs_made :: "path list"
  written :: "(path \<times> ('a, 'crs, 'v) gdf) list"

datatype exit_message = NoGeoidFile path | NoShp path

datatype outcome = Completed | SystemExit exit_message | Uncaught py_error

text \<open>
  The exit status of the process: \<^verbatim>\<open>sys.exit\<close> with a message prints it and exits with
  status 1, as does an exception nobody catches.
\<close>

fun exit_status :: "outcome \<Rightarrow> nat" where
  "exit_status Completed = 0"
| "exit_status (SystemExit m) = 1"
| "exit_status (Uncaught e) = 1"

text \<open>Task 1 of the loop body: assign the target CRS or reproject into it.\<close>

definition task1 :: "('a, 'crs, 'v) env \<Rightarrow> ('a, 'crs, 'v) gdf \<Rightarrow> ('a, 'crs, 'v) gdf" where
  "task1 e g =
     (case crs g of
        None \<Rightarrow> g\<lparr>crs := Some (CRS_TARGET e)\<rparr>
      | Some c \<Rightarrow>
          if c \<noteq> CRS_TARGET e
          then g\<lparr>crs := Some (CRS_TARGET e), geometry := map (to_crs e c (CRS_TARGET e)) (geometry g)\<rparr>
          else g)"

text \<open>Task 2: \<^verbatim>\<open>gdf.geometry.apply(z_fix)\<close>, row by row.\<close>

definition task2 :: "('a::{plus,zero}, 'crs, 'v) env \<Rightarrow> 'a vert \<Rightarrow> ('a, 'crs, 'v) gdf \<Rightarrow> py_error + ('a, 'crs, 'v) gdf" where
  "task2 e vs g =
     (case comprehension (z_fix (APPLY_Z_FIX e) (to_wgs84 e) vs) (geometry g) of
        Inl err \<Rightarrow> Inl err
      | Inr gs \<Rightarrow> Inr (g\<lparr>geometry := gs\<rparr>))"

text \<open>Task 3: the rename.\<close>

definition task3 :: "('a, 'crs, 'v) gdf \<Rightarrow> ('a, 'crs, 'v) gdf" where
  "task3 g = g\<lparr>columns := rename RENAME_FIELDS (columns g)\<rparr>"

text \<open>
  Task 4: \<^verbatim>\<open>gdf.to_file(out_path, driver="ESRI Shapefile")\<close>. geopandas refuses a
  table in which two columns have the same label, with ValueError, before it writes;
  the writing itself may fail.
\<close>

definition to_file :: "('a, 'crs, 'v) env \<Rightarrow> ('a, 'crs, 'v) gdf \<Rightarrow> path \<Rightarrow> py_error + unit" where
  "to_file e g out =
     (if \<not> distinct (map fst (columns g)) then Inl ValueError
      else (case write_error e out g of Some err \<Rightarrow> Inl err | None \<Rightarrow> Inr ()))"

text \<open>
  One turn of the \<^verbatim>\<open>for shp in shp_files\<close> loop: the layer is read, taken through
  tasks 1 to 3 and written. The turn gives the path and the layer it has written, or the
  exception that ended it; a turn that raises has written nothing.
\<close>

definition turn :: "('a::{plus,zero}, 'crs, 'v) env \<Rightarrow> 'a vert \<Rightarrow> path \<Rightarrow> py_error + path \<times> ('a, 'crs, 'v) gdf" where
  "turn e vs src_path =
     (case read_file e src_path of
        Inl err \<Rightarrow> Inl err
      | Inr g \<Rightarrow>
          (case task2 e vs (task1 e g) of
             Inl err \<Rightarrow> Inl err
           | Inr g2 \<Rightarrow>
               (let g3 = task3 g2;
                    out = out_path (unicode_upper e) (SCRIPT_DIR e) src_path
                in case to_file e g3 out of
                     Inl err \<Rightarrow> Inl err
                   | Inr u \<Rightarrow> Inr (out, g3))))"

definition loop_body :: "('a::{plus,zero}, 'crs, 'v) env \<Rightarrow> 'a vert \<Rightarrow> ('a, 'crs, 'v) disk \<Rightarrow> path \<Rightarrow> py_error + ('a, 'crs, 'v) disk" where
  "loop_body e vs d src_path =
     (case turn e vs src_path of
        Inl err \<Rightarrow> Inl err
      | Inr w \<Rightarrow> Inr (d\<lparr>written := written d @ [w]\<rparr>))"

fun for_loop :: "('a::{plus,zero}, 'crs, 'v) env \<Rightarrow> 'a vert \<Rightarrow> path list \<Rightarrow> ('a, 'crs, 'v) disk \<Rightarrow> outcome \<times> ('a, 'crs, 'v) disk" where
  "for_loop e vs [] d = (Completed, d)"
| "for_loop e vs (shp # rest) d =
     (case loop_body e vs d shp of
        Inl err \<Rightarrow> (Uncaught err, d)
      | Inr d' \<Rightarrow> for_loop e vs rest d')"

text \<open>The list \<^verbatim>\<open>shp_files\<close> of \<^verbatim>\<open>main\<close>.\<close>

definition shp_files :: "('a, 'crs, 'v) env \<Rightarrow> path list" where
  "shp_files e = glob_shp (listdir e) (script_dir_matches e) (SCRIPT_DIR e)"

definition main :: "('a::{plus,zero}, 'crs, 'v) env \<Rightarrow> 'a vert \<Rightarrow> ('a, 'crs, 'v) disk \<Rightarrow> outcome \<times> ('a, 'crs, 'v) disk" where
  "main e vs d =
     (if shp_files e = [] then (SystemExit (NoShp (SRC_DIR (SCRIPT_DIR e))), d)
      else for_loop e vs (shp_files e) d)"

text \<open>
  The module run as a script: the check of the grid file, the output directory, the
  transformers, then \<^verbatim>\<open>main()\<close>.
\<close>

definition script :: "('a::{plus,zero}, 'crs, 'v) env \<Rightarrow> outcome \<times> ('a, 'crs, 'v) disk" where
  "script e =
     (case gtx e of
        None \<Rightarrow> (SystemExit (NoGeoidFile (GTX_PATH (SCRIPT_DIR e))), \<lparr>dirs_made = [], written = []\<rparr>)
      | Some vs \<Rightarrow> main e vs \<lparr>dirs_made = [OUT_DIR (SCRIPT_DIR e)], written = []\<rparr>)"

section \<open>Vocabulary of the properties\<close>

text \<open>The classes \<^verbatim>\<open>z_fix\<close> has an \<^verbatim>\<open>isinstance\<close> branch for.\<close>

fun supported :: "'c geometry \<Rightarrow> bool" where
  "supported (Point p) = True"
| "supported (LineString cs) = True"
| "supported (MultiPoint ps) = True"
| "supported (MultiLineString ls) = True"
| "supported (Polygon ext holes) = False"
| "supported (MultiPolygon polys) = False"


text \<open>
  The corrected triple of the specification, \<open>(x, y, z + N)\<close>, for an undulation surface
  \<open>und\<close> over the projected plane.
\<close>

fun raise_z :: "('a \<Rightarrow> 'a \<Rightarrow> 'a::plus) \<Rightarrow> 'a coord \<Rightarrow> 'a coord" where
  "raise_z und (XYZ x y z) = XYZ x y (z + und x y)"
| "raise_z und (XY x y) = XY x y"


section \<open>A sample run\<close>

text \<open>
  Transformers over the integers, used to run the definitions: a shift of the plane, a
  grid whose undulation at \<open>(lon, lat)\<close> is \<open>lon * lat\<close>, and transformers that raise
  on every call.
\<close>

definition sample_tw :: "int horiz" where
  "sample_tw x y = Inr (x + 1, y + 2)"

definition sample_vs :: "int vert" where
  "sample_vs lon lat z = Inr (lon, lat, z + lon * lat)"


definition failing_tw :: "int horiz" where
  "failing_tw x y = Inl ProjError"

definition failing_vs :: "int vert" where
  "failing_vs lon lat z = Inl ProjError"

text \<open>
  A layer with no CRS, one 3D line and the field \<^verbatim>\<open>l_linkid\<close>, and the same layer
  declared in another CRS and in the target CRS; a layer of points in the target CRS;
  a layer with the fields \<^verbatim>\<open>id\<close> and \<^verbatim>\<open>ID\<close>.
\<close>

definition sample_gdf :: "nat option \<Rightarrow> (int, nat, string) gdf" where
  "sample_gdf c =
     \<lparr>crs = c,
      geometry = [LineString [XYZ 1 2 3, XYZ 4 5 6]],
      columns = [(''l_linkid'', ''A1''), (''ID'', ''7''), (''Name'', ''n'')]\<rparr>"

definition node_gdf :: "(int, nat, string) gdf" where
  "node_gdf =
     \<lparr>crs = Some 32652,
      geometry = [Point (Some (XYZ 0 0 10)), Point (Some (XY 3 3))],
      columns = [(''id'', ''N1'')]\<rparr>"

definition clash_gdf :: "(int, nat, string) gdf" where
  "clash_gdf =
     \<lparr>crs = Some 32652,
      geometry = [Point (Some (XY 3 3))],
      columns = [(''id'', ''1''), (''ID'', ''2'')]\<rparr>"

text \<open>
  A script directory \<^verbatim>\<open>work\<close> whose \<^verbatim>\<open>shp_input\<close> holds the given names, of which
  \<^verbatim>\<open>a_link.shp\<close>, \<^verbatim>\<open>b_node.shp\<close> and \<^verbatim>\<open>c_clash.shp\<close> are readable, and a disk
  that takes every write.
\<close>

definition sample_env :: "bool \<Rightarrow> int vert option \<Rightarrow> string list \<Rightarrow> (int, nat, string) env" where
  "sample_env flag grid names =
     \<lparr>SCRIPT_DIR = [''work''],
      APPLY_Z_FIX = flag,
      CRS_TARGET = 32652,
      gtx = grid,
      to_wgs84 = sample_tw,
      to_crs = (\<lambda>s t. map_geometry (raise_z (\<lambda>x y. 100))),
      listdir = (\<lambda>d. if d = [''work'', ''shp_input''] then names else []),
      script_dir_matches = [],
      read_file =
        (\<lambda>p. if last p = ''a_link.shp'' then Inr (sample_gdf None)
             else if last p = ''b_node.shp'' then Inr node_gdf
             else if last p = ''c_clash.shp'' then Inr clash_gdf
             else Inl ReadError),
      write_error = (\<lambda>p g. None),
      unicode_upper = (\<lambda>s. s)\<rparr>"

section \<open>Properties of z\_fix\<close>


lemma comprehension_Inr: "comprehension Inr xs = Inr xs"
  by (induction xs) simp_all












text \<open>
  C2. A geometry of a class outside the supported four, a Polygon or MultiPolygon with or
  without Z, comes back from \<^verbatim>\<open>z_fix\<close> as it went in, as a normal return value and
  not as an exception, whatever the flag and the transformers are.
\<close>

theorem z_fix_passes_unsupported:
  "\<not> supported g \<Longrightarrow> z_fix flag tw vs g = Inr g"
  by (cases g) (simp_all add: z_fix_def)

theorem z_fix_passes_unsupported_witness:
  "\<not> supported (Polygon [XYZ 0 0 5, XYZ 1 0 5, XYZ 1 1 (5::int), XYZ 0 0 5] []) \<and>
   has_z (Polygon [XYZ 0 0 5, XYZ 1 0 5, XYZ 1 1 (5::int), XYZ 0 0 5] []) \<and>
   z_fix True sample_tw sample_vs (Polygon [XYZ 0 0 5, XYZ 1 0 5, XYZ 1 1 5, XYZ 0 0 5] [])
   = Inr (Polygon [XYZ 0 0 5, XYZ 1 0 5, XYZ 1 1 5, XYZ 0 0 5] [])"
proof -
  let ?g = "Polygon [XYZ 0 0 5, XYZ 1 0 5, XYZ 1 1 (5::int), XYZ 0 0 5] []"
  have s: "\<not> supported ?g" by simp
  have h: "has_z ?g" by (simp add: ring_xyz_def)
  show ?thesis
    using s h z_fix_passes_unsupported [OF s, of True sample_tw sample_vs] by simp
qed

text \<open>
  C3. A geometry without a Z ordinate comes back from \<^verbatim>\<open>z_fix\<close> unchanged. The
  result does not depend on the transformers: it is the same with transformers that raise
  on every call, so neither of them is called.
\<close>

theorem z_fix_without_z:
  "\<not> has_z g \<Longrightarrow> z_fix flag tw vs g = Inr g"
  by (simp add: z_fix_def)

theorem z_fix_without_z_witness:
  "\<not> has_z (LineString [XY 1 2, XY 3 (4::int)]) \<and>
   z_fix True failing_tw failing_vs (LineString [XY 1 2, XY 3 4]) = Inr (LineString [XY 1 2, XY 3 4])"
proof -
  have h: "\<not> has_z (LineString [XY 1 2, XY 3 (4::int)])" by simp
  show ?thesis
    using h z_fix_without_z [OF h, of True failing_tw failing_vs] by simp
qed

section \<open>Properties of the rename\<close>

lemma rename_length: "length (rename m cols) = length cols"
  by (simp add: rename_def)

lemma rename_nth:
  "i < length cols \<Longrightarrow> rename m cols ! i = (rename_label m (fst (cols ! i)), snd (cols ! i))"
  by (simp add: rename_def case_prod_beta)

lemma rename_label_key: "map_of m k = Some k' \<Longrightarrow> rename_label m k = k'"
  by (simp add: rename_label_def)

lemma rename_label_other:
  assumes "k \<notin> fst ` set m"
  shows "rename_label m k = k"
proof -
  from assms have "map_of m k = None" by (simp add: map_of_eq_None_iff)
  then show ?thesis by (simp add: rename_label_def)
qed

lemma RENAME_FIELDS_keys:
  "map fst RENAME_FIELDS =
     [''id'', ''linkid'', ''l_linkid'', ''r_linkid'', ''tonodeid'', ''fromnodeid'',
      ''roadrank'', ''roadno'', ''laneno'', ''distance'', ''maxspeed'']"
  by (simp add: RENAME_FIELDS_def)

lemma targets_unmapped:
  "(k, k') \<in> set RENAME_FIELDS \<Longrightarrow> map_of RENAME_FIELDS k' = None"
  unfolding RENAME_FIELDS_def by (elim set_ConsD [elim_format] disjE) simp_all

lemma rename_label_idem:
  "rename_label RENAME_FIELDS (rename_label RENAME_FIELDS k) = rename_label RENAME_FIELDS k"
proof (cases "map_of RENAME_FIELDS k")
  case None
  then show ?thesis by (simp add: rename_label_def)
next
  case (Some k')
  then have "(k, k') \<in> set RENAME_FIELDS" by (rule map_of_SomeD)
  then have "map_of RENAME_FIELDS k' = None" by (rule targets_unmapped)
  with Some show ?thesis by (simp add: rename_label_def)
qed

text \<open>
  C4. The renamed record has the fields of the record, position by position, each with
  its value: a field whose name is a key of \<^verbatim>\<open>RENAME_FIELDS\<close> stands under the name
  the table gives for it, and a field whose name is no key stands as it was. A key is
  matched by equality of strings, so a name that differs from a key in the case of a
  letter is no key.
\<close>

theorem rename_carries_fields:
  "length (rename RENAME_FIELDS R) = length R \<and>
   (\<forall>i<length R.
      snd (rename RENAME_FIELDS R ! i) = snd (R ! i) \<and>
      (\<forall>k'. map_of RENAME_FIELDS (fst (R ! i)) = Some k' \<longrightarrow>
            fst (rename RENAME_FIELDS R ! i) = k') \<and>
      (fst (R ! i) \<notin> fst ` set RENAME_FIELDS \<longrightarrow> rename RENAME_FIELDS R ! i = R ! i))"
  by (simp add: rename_length rename_nth rename_label_key rename_label_other)

theorem rename_carries_fields_witness:
  "rename RENAME_FIELDS
     [(''id'', 1::nat), (''ID'', 2), (''L_linkid'', 3), (''l_linkid'', 4), (''name'', 5)] ! 3
   = (''L_LinkID'', 4) \<and>
   rename RENAME_FIELDS
     [(''id'', 1::nat), (''ID'', 2), (''L_linkid'', 3), (''l_linkid'', 4), (''name'', 5)] ! 2
   = (''L_linkid'', 3)"
proof -
  let ?R = "[(''id'', 1::nat), (''ID'', 2), (''L_linkid'', 3), (''l_linkid'', 4), (''name'', 5)]"
  have k: "map_of RENAME_FIELDS (fst (?R ! 3)) = Some ''L_LinkID''"
    by (simp add: RENAME_FIELDS_def)
  have n: "fst (?R ! 2) \<notin> fst ` set RENAME_FIELDS"
    by (simp add: RENAME_FIELDS_def)
  have a: "3 < length ?R" and b: "2 < length ?R" by simp_all
  from rename_carries_fields [of ?R] a k
  have "fst (rename RENAME_FIELDS ?R ! 3) = ''L_LinkID'' \<and> snd (rename RENAME_FIELDS ?R ! 3) = snd (?R ! 3)"
    by blast
  moreover from rename_carries_fields [of ?R] b n
  have "rename RENAME_FIELDS ?R ! 2 = ?R ! 2"
    by blast
  ultimately show ?thesis by (simp add: prod_eq_iff)
qed

text \<open>
  C5. Renaming twice with \<^verbatim>\<open>RENAME_FIELDS\<close> is renaming once, and the reason holds: no
  name the table maps to is a key of the table.
\<close>

theorem rename_idempotent:
  "rename RENAME_FIELDS (rename RENAME_FIELDS R) = rename RENAME_FIELDS R \<and>
   (\<forall>k k'. map_of RENAME_FIELDS k = Some k' \<longrightarrow> map_of RENAME_FIELDS k' = None)"
proof -
  have "rename RENAME_FIELDS (rename RENAME_FIELDS R) = rename RENAME_FIELDS R"
    by (simp add: rename_def case_prod_beta rename_label_idem)
  moreover have "map_of RENAME_FIELDS k' = None" if "map_of RENAME_FIELDS k = Some k'" for k k'
    using that by (intro targets_unmapped map_of_SomeD)
  ultimately show ?thesis by blast
qed

theorem rename_idempotent_witness:
  "map_of RENAME_FIELDS ''roadno'' = Some ''RoadNo'' \<and> map_of RENAME_FIELDS ''RoadNo'' = None \<and>
   rename RENAME_FIELDS (rename RENAME_FIELDS [(''roadno'', 1::nat), (''x'', 2)])
   = [(''RoadNo'', 1), (''x'', 2)]"
proof -
  have k: "map_of RENAME_FIELDS ''roadno'' = Some ''RoadNo''"
    by (simp add: RENAME_FIELDS_def)
  have o: "rename RENAME_FIELDS [(''roadno'', 1::nat), (''x'', 2)] = [(''RoadNo'', 1), (''x'', 2)]"
    by (simp add: rename_def rename_label_def RENAME_FIELDS_def)
  from rename_idempotent [of "[(''roadno'', 1::nat), (''x'', 2)]"] k
  have "map_of RENAME_FIELDS ''RoadNo'' = None"
    and "rename RENAME_FIELDS (rename RENAME_FIELDS [(''roadno'', 1::nat), (''x'', 2)])
         = rename RENAME_FIELDS [(''roadno'', 1::nat), (''x'', 2)]"
    by blast+
  with k o show ?thesis by simp
qed

section \<open>Properties of the batch driver\<close>

lemma task2_off: "\<not> APPLY_Z_FIX e \<Longrightarrow> task2 e vs g = Inr g"
proof -
  assume "\<not> APPLY_Z_FIX e"
  then have "z_fix (APPLY_Z_FIX e) (to_wgs84 e) vs = Inr"
    by (simp add: fun_eq_iff z_fix_def)
  then show ?thesis by (simp add: task2_def comprehension_Inr)
qed













lemma out_path_name:
  "out_path uu sd (dir @ [n]) = OUT_DIR sd @ [upper uu (stem n) @ suffix_of n]"
  by (simp add: out_path_def)






text \<open>
  C6. The load step: a layer with no CRS gets the target CRS and nothing else of it
  changes; a layer whose CRS is another one gets the target CRS and each of its
  geometries reprojected from its CRS into the target, in place; a layer already in the
  target CRS is left as it is.
\<close>

theorem task1_crs:
  "(crs g = None \<longrightarrow>
      task1 e g = g\<lparr>crs := Some (CRS_TARGET e)\<rparr> \<and> geometry (task1 e g) = geometry g) \<and>
   (\<forall>c. crs g = Some c \<and> c \<noteq> CRS_TARGET e \<longrightarrow>
      crs (task1 e g) = Some (CRS_TARGET e) \<and>
      geometry (task1 e g) = map (to_crs e c (CRS_TARGET e)) (geometry g) \<and>
      columns (task1 e g) = columns g) \<and>
   (crs g = Some (CRS_TARGET e) \<longrightarrow> task1 e g = g)"
  by (simp add: task1_def)

theorem task1_crs_witness:
  "task1 (sample_env True None []) (sample_gdf None) = sample_gdf (Some 32652) \<and>
   task1 (sample_env True None []) (sample_gdf (Some 4326)) =
     (sample_gdf (Some 32652))\<lparr>geometry := [LineString [XYZ 1 2 103, XYZ 4 5 106]]\<rparr> \<and>
   task1 (sample_env True None []) (sample_gdf (Some 32652)) = sample_gdf (Some 32652)"
proof -
  let ?e = "sample_env True None []"
  have t: "CRS_TARGET ?e = 32652" by (simp add: sample_env_def)
  have a: "crs (sample_gdf None :: (int, nat, string) gdf) = None"
    by (simp add: sample_gdf_def)
  have b: "crs (sample_gdf (Some 4326)) = Some 4326 \<and> 4326 \<noteq> CRS_TARGET ?e"
    by (simp add: sample_gdf_def sample_env_def)
  have c: "crs (sample_gdf (Some 32652)) = Some (CRS_TARGET ?e)"
    by (simp add: sample_gdf_def sample_env_def)
  from task1_crs [of "sample_gdf None" ?e] a
  have f1: "task1 ?e (sample_gdf None) = (sample_gdf None)\<lparr>crs := Some (CRS_TARGET ?e)\<rparr>"
    by blast
  from task1_crs [of "sample_gdf (Some 4326)" ?e] b
  have f2: "crs (task1 ?e (sample_gdf (Some 4326))) = Some (CRS_TARGET ?e) \<and>
           geometry (task1 ?e (sample_gdf (Some 4326))) =
             map (to_crs ?e 4326 (CRS_TARGET ?e)) (geometry (sample_gdf (Some 4326))) \<and>
           columns (task1 ?e (sample_gdf (Some 4326))) = columns (sample_gdf (Some 4326))"
    by blast
  from task1_crs [of "sample_gdf (Some 32652)" ?e] c
  have f3: "task1 ?e (sample_gdf (Some 32652)) = sample_gdf (Some 32652)"
    by blast
  have f2b: "task1 ?e (sample_gdf (Some 4326)) =
     (sample_gdf (Some 32652))\<lparr>geometry := [LineString [XYZ 1 2 103, XYZ 4 5 106]]\<rparr>"
    using f2 by (simp add: gdf.equality sample_gdf_def sample_env_def)
  from f1 f2b f3 show ?thesis by (simp add: sample_gdf_def t)
qed

text \<open>
  C7. When the glob finds no shapefile, \<^verbatim>\<open>main\<close> exits with the message of the empty
  input and leaves the disk as it found it, whatever \<^verbatim>\<open>read_file\<close> would do; the
  script ends with a status that is not zero and has written no file.
\<close>

theorem empty_input_aborts:
  assumes "shp_files e = []"
  shows "exit_status (fst (script e)) \<noteq> 0 \<and> written (snd (script e)) = [] \<and>
         (\<forall>vs d. main e vs d = (SystemExit (NoShp (SRC_DIR (SCRIPT_DIR e))), d))"
  using assms by (simp add: script_def main_def split: option.splits)

theorem empty_input_aborts_witness:
  "shp_files (sample_env True (Some sample_vs) [''notes.txt'', ''.a.shp'']) = [] \<and>
   script (sample_env True (Some sample_vs) [''notes.txt'', ''.a.shp'']) =
     (SystemExit (NoShp [''work'', ''shp_input'']),
      \<lparr>dirs_made = [[''work'', ''shp_output'']], written = []\<rparr>)"
proof -
  let ?e = "sample_env True (Some sample_vs) [''notes.txt'', ''.a.shp'']"
  have h: "shp_files ?e = []"
    by (simp add: shp_files_def sample_env_def glob_shp_def glob1_shp_def has_magic_def
          SRC_DIR_def ishidden_def fnmatch_shp_def)
  have g: "gtx ?e = Some sample_vs" and s: "SCRIPT_DIR ?e = [''work'']"
    by (simp_all add: sample_env_def)
  from empty_input_aborts [OF h]
  have "main ?e sample_vs \<lparr>dirs_made = [OUT_DIR (SCRIPT_DIR ?e)], written = []\<rparr> =
        (SystemExit (NoShp (SRC_DIR (SCRIPT_DIR ?e))), \<lparr>dirs_made = [OUT_DIR (SCRIPT_DIR ?e)], written = []\<rparr>)"
    by blast
  then have "script ?e =
     (SystemExit (NoShp [''work'', ''shp_input'']),
      \<lparr>dirs_made = [[''work'', ''shp_output'']], written = []\<rparr>)"
    by (simp add: script_def g s SRC_DIR_def OUT_DIR_def)
  with h show ?thesis by simp
qed

text \<open>
  C8. When there is no grid file at \<^verbatim>\<open>GTX_PATH\<close>, the script exits with the message
  of the missing grid and status 1 before it makes the output directory, lists the
  inputs or reads a file: nothing is on the disk. A run that completes, or that writes
  a file, is a run that had the grid.
\<close>

theorem missing_grid_aborts:
  "(gtx e = None \<longrightarrow>
      script e = (SystemExit (NoGeoidFile (GTX_PATH (SCRIPT_DIR e))), \<lparr>dirs_made = [], written = []\<rparr>) \<and>
      exit_status (fst (script e)) = 1) \<and>
   (fst (script e) = Completed \<or> written (snd (script e)) \<noteq> [] \<longrightarrow> gtx e \<noteq> None)"
  by (cases "gtx e") (simp_all add: script_def)

theorem missing_grid_aborts_witness:
  "gtx (sample_env True None [''a_link.shp'']) = None \<and>
   script (sample_env True None [''a_link.shp'']) =
     (SystemExit (NoGeoidFile [''work'', ''egm96_15.gtx'']), \<lparr>dirs_made = [], written = []\<rparr>) \<and>
   exit_status (fst (script (sample_env True None [''a_link.shp'']))) = 1"
proof -
  let ?e = "sample_env True None [''a_link.shp'']"
  have h: "gtx ?e = None" by (simp add: sample_env_def)
  from missing_grid_aborts [of ?e] h
  have "script ?e = (SystemExit (NoGeoidFile (GTX_PATH (SCRIPT_DIR ?e))), \<lparr>dirs_made = [], written = []\<rparr>) \<and>
        exit_status (fst (script ?e)) = 1"
    by blast
  with h show ?thesis by (simp add: sample_env_def GTX_PATH_def)
qed

lemma upper_samples:
  "upper (\<lambda>s. s) ''a_link'' = ''A_LINK''"
  "upper (\<lambda>s. s) ''b_node'' = ''B_NODE''"
  "upper (\<lambda>s. s) ''c_clash'' = ''C_CLASH''"
  by (simp_all add: upper_def is_ascii_def upper_char_def)

lemma out_path_samples:
  "out_path (\<lambda>s. s) [''work''] [''work'', ''shp_input'', ''a_link.shp''] =
     [''work'', ''shp_output'', ''A_LINK.shp'']"
  "out_path (\<lambda>s. s) [''work''] [''work'', ''shp_input'', ''b_node.shp''] =
     [''work'', ''shp_output'', ''B_NODE.shp'']"
  "out_path (\<lambda>s. s) [''work''] [''work'', ''shp_input'', ''c_clash.shp''] =
     [''work'', ''shp_output'', ''C_CLASH.shp'']"
  by (simp_all add: out_path_def OUT_DIR_def stem_def suffix_of_def rfind_def upper_samples)



text \<open>
  C10. With \<^verbatim>\<open>APPLY_Z_FIX\<close> false, \<^verbatim>\<open>z_fix\<close> returns every geometry as it came,
  whatever its class and its Z and whatever the transformers would do. A turn of the
  loop is then the reading, the CRS step, the rename and the writing, with nothing
  between: it writes the layer it read with the CRS step and the rename applied, and
  it raises what the reading or the writing raises.
\<close>

theorem z_fix_disabled:
  "z_fix False tw vs g = Inr g \<and>
   (\<not> APPLY_Z_FIX e \<longrightarrow>
      turn e vs' p =
        (case read_file e p of
           Inl err \<Rightarrow> Inl err
         | Inr gd \<Rightarrow>
             (case to_file e (task3 (task1 e gd)) (out_path (unicode_upper e) (SCRIPT_DIR e) p) of
                Inl err \<Rightarrow> Inl err
              | Inr u \<Rightarrow> Inr (out_path (unicode_upper e) (SCRIPT_DIR e) p, task3 (task1 e gd))))) \<and>
   (\<not> APPLY_Z_FIX e \<longrightarrow> read_file e p = Inr gd \<longrightarrow>
    to_file e (task3 (task1 e gd)) (out_path (unicode_upper e) (SCRIPT_DIR e) p) = Inr () \<longrightarrow>
      loop_body e vs' d p =
        Inr (d\<lparr>written := written d @
                 [(out_path (unicode_upper e) (SCRIPT_DIR e) p, task3 (task1 e gd))]\<rparr>))"
  by (simp add: z_fix_def loop_body_def turn_def task2_off Let_def split: sum.splits)

theorem z_fix_disabled_witness:
  "has_z (LineString [XYZ 1 2 3, XYZ 4 5 (6::int)]) \<and>
   z_fix False failing_tw failing_vs (LineString [XYZ 1 2 3, XYZ 4 5 6]) =
     Inr (LineString [XYZ 1 2 3, XYZ 4 5 6]) \<and>
   loop_body (sample_env False (Some failing_vs) [''a_link.shp'']) failing_vs
       \<lparr>dirs_made = [], written = []\<rparr> [''work'', ''shp_input'', ''a_link.shp''] =
     Inr \<lparr>dirs_made = [],
          written =
            [([''work'', ''shp_output'', ''A_LINK.shp''],
              \<lparr>crs = Some 32652,
               geometry = [LineString [XYZ 1 2 3, XYZ 4 5 6]],
               columns = [(''L_LinkID'', ''A1''), (''ID'', ''7''), (''Name'', ''n'')]\<rparr>)]\<rparr> \<and>
   turn (sample_env False (Some failing_vs) [''c_clash.shp'']) failing_vs
       [''work'', ''shp_input'', ''c_clash.shp''] = Inl ValueError"
proof -
  let ?e = "sample_env False (Some failing_vs) [''a_link.shp'']"
  let ?e' = "sample_env False (Some failing_vs) [''c_clash.shp'']"
  let ?p = "[''work'', ''shp_input'', ''a_link.shp'']"
  let ?p' = "[''work'', ''shp_input'', ''c_clash.shp'']"
  let ?d = "\<lparr>dirs_made = [], written = []\<rparr> :: (int, nat, string) disk"
  let ?g = "\<lparr>crs = Some 32652,
            geometry = [LineString [XYZ 1 2 3, XYZ 4 5 6]],
            columns = [(''L_LinkID'', ''A1''), (''ID'', ''7''), (''Name'', ''n'')]\<rparr> :: (int, nat, string) gdf"
  have off: "\<not> APPLY_Z_FIX ?e" "\<not> APPLY_Z_FIX ?e'" by (simp_all add: sample_env_def)
  have rd: "read_file ?e ?p = Inr (sample_gdf None)" "read_file ?e' ?p' = Inr clash_gdf"
    by (simp_all add: sample_env_def)
  have sd: "SCRIPT_DIR ?e = [''work'']" "unicode_upper ?e = (\<lambda>s. s)"
    "SCRIPT_DIR ?e' = [''work'']" "unicode_upper ?e' = (\<lambda>s. s)"
    by (simp_all add: sample_env_def)
  have t: "task3 (task1 ?e (sample_gdf None)) = ?g"
    by (simp add: task1_def task3_def sample_env_def sample_gdf_def rename_def rename_label_def
          RENAME_FIELDS_def)
  have wr: "to_file ?e ?g [''work'', ''shp_output'', ''A_LINK.shp''] = Inr ()"
    by (simp add: to_file_def sample_env_def)
  have t': "columns (task3 (task1 ?e' clash_gdf)) = [(''ID'', ''1''), (''ID'', ''2'')]"
    by (simp add: task1_def task3_def sample_env_def clash_gdf_def rename_def rename_label_def
          RENAME_FIELDS_def)
  have wr': "to_file ?e' (task3 (task1 ?e' clash_gdf)) [''work'', ''shp_output'', ''C_CLASH.shp''] =
             Inl ValueError"
    by (simp add: to_file_def t')
  from z_fix_disabled [of failing_tw failing_vs "LineString [XYZ 1 2 3, XYZ 4 5 6]" ?e failing_vs ?p
      "sample_gdf None" ?d] off rd wr
  have 1: "z_fix False failing_tw failing_vs (LineString [XYZ 1 2 3, XYZ 4 5 6]) =
          Inr (LineString [XYZ 1 2 3, XYZ 4 5 6])"
    and 2: "loop_body ?e failing_vs ?d ?p =
          Inr (?d\<lparr>written := written ?d @
                    [(out_path (unicode_upper ?e) (SCRIPT_DIR ?e) ?p, task3 (task1 ?e (sample_gdf None)))]\<rparr>)"
    by (simp_all add: sd out_path_samples t)
  from z_fix_disabled [of failing_tw failing_vs "LineString [XYZ 1 2 3, XYZ 4 5 6]" ?e' failing_vs ?p'
      clash_gdf ?d] off
  have 3: "turn ?e' failing_vs ?p' = Inl ValueError"
    by (simp add: rd sd out_path_samples wr')
  from 1 2 3 show ?thesis by (simp add: sd out_path_samples t)
qed

end
